theory Spec2Isabelle
  imports Main
begin

section \<open>Python values, errors and dictionaries\<close>

text \<open>
  The server is Python 2: a \<open>str\<close> is a sequence of 8-bit characters, which is what
  \<^typ>\<open>string\<close> is. The same type serves for the raw bytes read from a socket and for
  the hexadecimal text the codec library works on.
\<close>

type_synonym bytes = string

text \<open>The values the codec library hands out for an attribute: an integer, a string, or a
  list of values (a grouped attribute).\<close>

datatype py_value = PyInt int | PyStr string | PyList "py_value list"

text \<open>The exceptions the server's own code can raise: a failed dictionary subscript and a
  failed \<open>decode('hex')\<close>.\<close>

datatype py_error = KeyError string | TypeError

text \<open>\<open>d[k]\<close>: the value stored under \<open>k\<close>, or \<open>KeyError\<close>.\<close>

definition getitem :: "(string \<rightharpoonup> 'v) \<Rightarrow> string \<Rightarrow> py_error + 'v" where
  "getitem d k = (case d k of None \<Rightarrow> Inl (KeyError k) | Some v \<Rightarrow> Inr v)"

text \<open>\<open>d.get(k, default)\<close>.\<close>

definition dict_get :: "('k \<rightharpoonup> 'v) \<Rightarrow> 'k \<Rightarrow> 'v \<Rightarrow> 'v" where
  "dict_get d k dflt = (case d k of None \<Rightarrow> dflt | Some v \<Rightarrow> v)"

text \<open>Sequencing of statements that may raise: the first exception ends the computation.\<close>

definition and_then :: "'e + 'a \<Rightarrow> ('a \<Rightarrow> 'e + 'b) \<Rightarrow> 'e + 'b" where
  "and_then r f = (case r of Inl e \<Rightarrow> Inl e | Inr v \<Rightarrow> f v)"

subsection \<open>The \<open>hex\<close> codec of Python 2 strings\<close>

definition hex_digit :: "int \<Rightarrow> char" where
  "hex_digit n = ''0123456789abcdef'' ! nat (n mod 16)"

text \<open>\<open>s.encode("hex")\<close>: two lower-case digits for every character.\<close>

definition hex_encode :: "bytes \<Rightarrow> string" where
  "hex_encode s = concat (map (\<lambda>c. [hex_digit (of_char c div 16), hex_digit (of_char c mod 16)]) s)"

definition hex_value :: "char \<Rightarrow> int option" where
  "hex_value c =
     (let n = (of_char c :: int) in
      if 48 \<le> n \<and> n \<le> 57 then Some (n - 48)
      else if 97 \<le> n \<and> n \<le> 102 then Some (n - 87)
      else if 65 \<le> n \<and> n \<le> 70 then Some (n - 55)
      else None)"

text \<open>\<open>s.decode('hex')\<close>: \<open>TypeError\<close> on an odd length or on a character that is no
  hexadecimal digit.\<close>

fun hex_decode :: "string \<Rightarrow> py_error + bytes" where
  "hex_decode [] = Inr []"
| "hex_decode [a] = Inl TypeError"
| "hex_decode (a # b # rest) =
     (case (hex_value a, hex_value b) of
        (Some x, Some y) \<Rightarrow>
          (case hex_decode rest of
             Inl e \<Rightarrow> Inl e
           | Inr bs \<Rightarrow> Inr (char_of (16 * x + y) # bs))
      | _ \<Rightarrow> Inl TypeError)"

section \<open>The codec library\<close>

text \<open>
  The server imports everything it does with headers and attributes from the library
  \<open>libDiameter\<close>, which is not part of the server's source. Its header class is the record
  below, with the attributes the server reads and writes, under the names it uses for them.
\<close>

record HDRItem =
  ver :: int
  flags :: int
  len :: int
  cmd :: int
  appId :: int
  HobByHop :: int
  EndToEnd :: int
  msg :: string

text \<open>
  The library's functions are a parameter of the whole development: a record of functions,
  one field for every function the server calls. A function that updates the header it is
  given returns the updated header. \<open>initializeHops\<close> keeps counters of its own between
  calls; that state, whatever it is, has the type \<open>'w\<close> and is passed through. Logging is
  left out.
\<close>

record 'w libDiameter =
  HDRItem_new :: HDRItem
  stripHdr :: "HDRItem \<Rightarrow> string \<Rightarrow> HDRItem"
  splitMsgAVPs :: "string \<Rightarrow> string list"
  decodeAVP :: "string \<Rightarrow> string \<times> py_value"
  encodeAVP :: "string \<Rightarrow> py_value \<Rightarrow> string"
  initializeHops :: "'w \<Rightarrow> HDRItem \<Rightarrow> HDRItem \<times> 'w"
  createRes :: "HDRItem \<Rightarrow> string list \<Rightarrow> string"
  dictCOMMANDname2code :: "string \<Rightarrow> int"

text \<open>
  What the server's comment on its call of \<open>initializeHops\<close> says of it, "Set Hop-by-Hop and
  End-to-End": the header comes back with these two identifiers set and no other attribute
  touched. It is a hypothesis wherever a theorem needs it, never an assumption of the model.
\<close>

definition sets_hops_only :: "'w libDiameter \<Rightarrow> bool" where
  "sets_hops_only L =
     (\<forall>w H. \<exists>h e. fst (initializeHops L w H) = H\<lparr>HDRItem.HobByHop := h, HDRItem.EndToEnd := e\<rparr>)"

section \<open>The server\<close>

definition BUFFER_SIZE :: nat where
  "BUFFER_SIZE = 4096"

definition result_codes :: "string \<rightharpoonup> int" where
  "result_codes = [''DIAMETER_SUCCESS'' \<mapsto> 2001, ''DIAMETER_UNABLE_TO_COMPLY'' \<mapsto> 5012]"

subsection \<open>\<open>DiameterMessage\<close>\<close>

record DiameterMessage =
  version :: int
  flags :: int
  length_field :: int
  command_code :: int
  application_Id :: int
  HobByHop :: int
  EndToEnd :: int
  hex_msg :: string
  hex_avps :: "string list"
  avps :: "string \<rightharpoonup> py_value"

text \<open>The loop of \<open>__init__\<close> that decodes every attribute and stores it in the dictionary
  under its name.\<close>

fun store_avps :: "'w libDiameter \<Rightarrow> string list \<Rightarrow> (string \<rightharpoonup> py_value) \<Rightarrow> (string \<rightharpoonup> py_value)" where
  "store_avps L [] d = d"
| "store_avps L (hex_avp # rest) d =
     (case decodeAVP L hex_avp of (field, val) \<Rightarrow> store_avps L rest (d(field \<mapsto> val)))"

definition DiameterMessage_init :: "'w libDiameter \<Rightarrow> HDRItem \<Rightarrow> DiameterMessage" where
  "DiameterMessage_init L request_data =
     \<lparr> version = ver request_data,
       flags = HDRItem.flags request_data,
       length_field = len request_data,
       command_code = cmd request_data,
       application_Id = appId request_data,
       HobByHop = HDRItem.HobByHop request_data,
       EndToEnd = HDRItem.EndToEnd request_data,
       hex_msg = msg request_data,
       hex_avps = splitMsgAVPs L (msg request_data),
       avps = store_avps L (splitMsgAVPs L (msg request_data)) Map.empty \<rparr>"

subsection \<open>The response builders\<close>

definition invalid_request ::
  "'w libDiameter \<Rightarrow> 'w \<Rightarrow> DiameterMessage \<Rightarrow> (py_error + string) \<times> 'w" where
  "invalid_request L w diameter_request =
     (let response_header = HDRItem_new L;
          response_header = response_header\<lparr>cmd := command_code diameter_request\<rparr>;
          (response_header, w') = initializeHops L w response_header
      in (and_then (getitem result_codes ''DIAMETER_UNABLE_TO_COMPLY'') (\<lambda>code.
            let response_avps = [] @ [encodeAVP L ''Result-Code'' (PyInt code)]
            in Inr (createRes L response_header response_avps)),
          w'))"

definition generate_capability_exchange_answer ::
  "'w libDiameter \<Rightarrow> 'w \<Rightarrow> DiameterMessage \<Rightarrow> (py_error + string) \<times> 'w" where
  "generate_capability_exchange_answer L w diameter_request =
     (let cea_header = HDRItem_new L;
          cea_header = cea_header\<lparr>cmd := dictCOMMANDname2code L ''Capabilities-Exchange''\<rparr>;
          (cea_header, w') = initializeHops L w cea_header;
          cea_avps = []
      in (and_then (getitem (avps diameter_request) ''Origin-Host'') (\<lambda>v.
          let cea_avps = cea_avps @ [encodeAVP L ''Origin-Host'' v] in
          and_then (getitem (avps diameter_request) ''Origin-Realm'') (\<lambda>v.
          let cea_avps = cea_avps @ [encodeAVP L ''Origin-Realm'' v] in
          and_then (getitem result_codes ''DIAMETER_SUCCESS'') (\<lambda>code.
          let cea_avps = cea_avps @ [encodeAVP L ''Result-Code'' (PyInt code)] in
          and_then (getitem (avps diameter_request) ''Vendor-Id'') (\<lambda>v.
          let cea_avps = cea_avps @ [encodeAVP L ''Vendor-Id'' v] in
          and_then (getitem (avps diameter_request) ''Origin-State-Id'') (\<lambda>v.
          let cea_avps = cea_avps @ [encodeAVP L ''Origin-State-Id'' v] in
          and_then (getitem (avps diameter_request) ''Supported-Vendor-Id'') (\<lambda>v.
          let cea_avps = cea_avps @ [encodeAVP L ''Supported-Vendor-Id'' v] in
          and_then (getitem (avps diameter_request) ''Acct-Application-Id'') (\<lambda>v.
          let cea_avps = cea_avps @ [encodeAVP L ''Acct-Application-Id'' v] in
          Inr (createRes L cea_header cea_avps)))))))),
          w'))"

subsection \<open>Dispatch on the command code\<close>

definition cmd_code_responses ::
  "'w libDiameter \<Rightarrow> (int \<rightharpoonup> ('w \<Rightarrow> DiameterMessage \<Rightarrow> (py_error + string) \<times> 'w))" where
  "cmd_code_responses L = [257 \<mapsto> generate_capability_exchange_answer L]"

subsection \<open>The connection\<close>

text \<open>
  A connection is a socket seen from the worker that owns it. What the peer and the network
  will do is written down in advance: \<open>script\<close> lists what the next calls of \<open>recv\<close> meet,
  in order, and \<open>thereafter\<close> is what every call after those meets. A call of \<open>recv\<close> meets
  bytes that have arrived (none at all when the peer has closed its side), or raises
  \<open>socket.error\<close>, or finds nothing and waits for ever. \<open>sent\<close> collects the arguments of
  the calls of \<open>send\<close>, and \<open>closed\<close> records the call of \<open>close\<close>.
\<close>

datatype recv_event = Data bytes | SocketError | Blocks

record connection =
  script :: "recv_event list"
  thereafter :: recv_event
  sent :: "bytes list"
  closed :: bool

text \<open>\<open>connection.recv(bufsize)\<close> returns at most \<open>bufsize\<close> of the bytes that have arrived and
  leaves the others for the next call.\<close>

definition recv :: "connection \<Rightarrow> nat \<Rightarrow> recv_event \<times> connection" where
  "recv c bufsize =
     (case script c of
        [] \<Rightarrow>
          (case thereafter c of
             Data bs \<Rightarrow> (Data (take bufsize bs), c)
           | ev \<Rightarrow> (ev, c))
      | Data bs # evs \<Rightarrow>
          (if length bs \<le> bufsize then (Data bs, c\<lparr>script := evs\<rparr>)
           else (Data (take bufsize bs), c\<lparr>script := Data (drop bufsize bs) # evs\<rparr>))
      | ev # evs \<Rightarrow> (ev, c\<lparr>script := evs\<rparr>))"

text \<open>A connection on which no read will ever raise \<open>socket.error\<close>.\<close>

definition never_fails :: "connection \<Rightarrow> bool" where
  "never_fails c = (SocketError \<notin> set (script c) \<and> thereafter c \<noteq> SocketError)"

text \<open>\<open>connection.send(data)\<close> and \<open>connection.close()\<close>; sending is taken to succeed.\<close>

definition send :: "connection \<Rightarrow> bytes \<Rightarrow> connection" where
  "send c data = c\<lparr>sent := sent c @ [data]\<rparr>"

definition close :: "connection \<Rightarrow> connection" where
  "close c = c\<lparr>closed := True\<rparr>"

subsection \<open>\<open>send_response\<close>\<close>

definition send_response ::
  "'w libDiameter \<Rightarrow> 'w \<Rightarrow> connection \<Rightarrow> bytes \<Rightarrow> (py_error + DiameterMessage) \<times> connection \<times> 'w" where
  "send_response L w socket_connection request_info =
     (let request = HDRItem_new L;
          request = stripHdr L request (hex_encode request_info);
          diameter_request = DiameterMessage_init L request;
          handler = dict_get (cmd_code_responses L) (command_code diameter_request) (invalid_request L)
      in case handler w diameter_request of
           (Inl e, w') \<Rightarrow> (Inl e, socket_connection, w')
         | (Inr response, w') \<Rightarrow>
             (case hex_decode response of
                Inl e \<Rightarrow> (Inl e, socket_connection, w')
              | Inr raw \<Rightarrow>
                  (let socket_connection = send socket_connection raw;
                       response_data = HDRItem_new L;
                       response_data = stripHdr L response_data response;
                       diameter_sent_message = DiameterMessage_init L response_data
                   in (Inr diameter_sent_message, socket_connection, w'))))"

subsection \<open>\<open>handle_request\<close>: the worker of one connection\<close>

text \<open>
  The inner loop, entered after a read that filled the buffer: it appends whatever the
  following reads return and leaves only when a read raises \<open>socket.error\<close>. A loop that
  does not end, and a read that never returns, have the value \<open>None\<close>.
\<close>

partial_function (option) recv_more :: "connection \<Rightarrow> bytes \<Rightarrow> (bytes \<times> connection) option" where
  "recv_more c data =
     (case recv c BUFFER_SIZE of
        (Data chunk, c') \<Rightarrow> recv_more c' (data @ chunk)
      | (SocketError, c') \<Rightarrow> Some (data, c')
      | (Blocks, c') \<Rightarrow> None)"

text \<open>The part of the loop body that receives: the first read, and the inner loop when that
  read returned exactly \<open>BUFFER_SIZE\<close> bytes. A first read that raises leaves the outer
  loop.\<close>

datatype received = ReadFailed | Received bytes

definition receive :: "connection \<Rightarrow> (received \<times> connection) option" where
  "receive c =
     (case recv c BUFFER_SIZE of
        (Data data, c') \<Rightarrow>
          (if length data = BUFFER_SIZE
           then map_option (\<lambda>(data, c''). (Received data, c'')) (recv_more c' data)
           else Some (Received data, c'))
      | (SocketError, c') \<Rightarrow> Some (ReadFailed, c')
      | (Blocks, c') \<Rightarrow> None)"

text \<open>
  How a worker ends, when it does: it leaves the loop and closes the connection, or an
  exception that nothing catches ends its thread where it is raised.
\<close>

datatype 'w worker_end = Finished connection 'w | Died py_error connection 'w

partial_function (option) handle_request ::
  "'w libDiameter \<Rightarrow> 'w \<Rightarrow> connection \<Rightarrow> 'w worker_end option" where
  "handle_request L w c =
     (case receive c of
        None \<Rightarrow> None
      | Some (ReadFailed, c') \<Rightarrow> Some (Finished (close c') w)
      | Some (Received data, c') \<Rightarrow>
          (if length data = 0 then Some (Finished (close c') w)
           else (case send_response L w c' data of
                   (Inl e, c'', w') \<Rightarrow> Some (Died e c'' w')
                 | (Inr message_sent, c'', w') \<Rightarrow> handle_request L w' c'')))"

declare recv_more.simps [code]

declare handle_request.simps [code]

section \<open>A codec to run the server on\<close>

text \<open>
  To run the server on bytes, the library parameter needs a value. The codec below is one:
  it writes and reads the header in the wire format (one byte of version, three of length,
  one of flags, three of command code, four each of application, hop-by-hop and end-to-end
  identifier, the length counting the header's own twenty bytes), and an attribute as four
  bytes of code, one of flags, three of length and the value, padded to a multiple of four
  bytes. Like the library it works on hexadecimal text. It knows the seven attributes the
  server names; an integer value is an unsigned 32-bit number and a string value is its
  bytes. The general theorems below hold for every library; this one supplies the concrete
  runs.
\<close>

text \<open>A number in a given count of upper-case hexadecimal digits, and the number that a
  text of hexadecimal digits stands for.\<close>

primrec fixed_hex :: "nat \<Rightarrow> int \<Rightarrow> string" where
  "fixed_hex 0 v = []"
| "fixed_hex (Suc n) v = fixed_hex n (v div 16) @ [''0123456789ABCDEF'' ! nat (v mod 16)]"

definition hex_int :: "string \<Rightarrow> int" where
  "hex_int s = foldl (\<lambda>acc c. 16 * acc + (case hex_value c of None \<Rightarrow> 0 | Some d \<Rightarrow> d)) 0 s"

text \<open>Modelled from the spec: the header layout of the wire format, read from hexadecimal
  text into a header; the library's \<open>stripHdr\<close> is not in the server's source.\<close>

definition wire_stripHdr :: "HDRItem \<Rightarrow> string \<Rightarrow> HDRItem" where
  "wire_stripHdr H m =
     (if m = [] then H
      else H\<lparr> ver := (hex_int (take 2 m)),
              len := (hex_int (take 6 (drop 2 m))),
              HDRItem.flags := (hex_int (take 2 (drop 8 m))),
              cmd := (hex_int (take 6 (drop 10 m))),
              appId := (hex_int (take 8 (drop 16 m))),
              HDRItem.HobByHop := (hex_int (take 8 (drop 24 m))),
              HDRItem.EndToEnd := (hex_int (take 8 (drop 32 m))),
              msg := drop 40 m \<rparr>)"

text \<open>Modelled from the spec: the header layout of the wire format, written in front of the
  encoded attributes, with the length computed from them; the library's \<open>createRes\<close> is
  not in the server's source.\<close>

definition wire_createRes :: "HDRItem \<Rightarrow> string list \<Rightarrow> string" where
  "wire_createRes H avp_list =
     (let data = concat avp_list
      in ''01'' @ fixed_hex 6 (int (length data) div 2 + 20)
           @ fixed_hex 2 (HDRItem.flags H)
           @ fixed_hex 6 (cmd H)
           @ fixed_hex 8 (appId H)
           @ fixed_hex 8 (HDRItem.HobByHop H)
           @ fixed_hex 8 (HDRItem.EndToEnd H)
           @ data)"

datatype avp_kind = Unsigned32 | OctetString

definition avp_dictionary :: "(string \<times> int \<times> avp_kind) list" where
  "avp_dictionary =
     [(''Origin-Host'', 264, OctetString),
      (''Origin-Realm'', 296, OctetString),
      (''Result-Code'', 268, Unsigned32),
      (''Vendor-Id'', 266, Unsigned32),
      (''Origin-State-Id'', 278, Unsigned32),
      (''Supported-Vendor-Id'', 265, Unsigned32),
      (''Acct-Application-Id'', 259, Unsigned32)]"

definition wire_encodeAVP :: "string \<Rightarrow> py_value \<Rightarrow> string" where
  "wire_encodeAVP name v =
     (let code = (case map_of avp_dictionary name of None \<Rightarrow> 0 | Some (code, kind) \<Rightarrow> code);
          data = (case v of
                    PyInt i \<Rightarrow> fixed_hex 8 i
                  | PyStr s \<Rightarrow> concat (map (\<lambda>c. fixed_hex 2 (of_char c)) s)
                  | PyList vs \<Rightarrow> []);
          n = 8 + int (length data) div 2;
          padding = concat (replicate (nat ((4 - n mod 4) mod 4)) ''00'')
      in fixed_hex 8 code @ ''40'' @ fixed_hex 6 n @ data @ padding)"

definition wire_decodeAVP :: "string \<Rightarrow> string \<times> py_value" where
  "wire_decodeAVP hex_avp =
     (let code = hex_int (take 8 hex_avp);
          n = hex_int (take 6 (drop 10 hex_avp));
          data = take (nat (2 * (n - 8))) (drop 16 hex_avp)
      in case find (\<lambda>(name, code', kind). code' = code) avp_dictionary of
           None \<Rightarrow> (''Unknown'', PyStr data)
         | Some (name, code', Unsigned32) \<Rightarrow> (name, PyInt (hex_int data))
         | Some (name, code', OctetString) \<Rightarrow>
             (name, PyStr (case hex_decode data of Inl e \<Rightarrow> [] | Inr s \<Rightarrow> s)))"

text \<open>Cutting the body into attributes, by the length each one declares; at most as many
  as there are characters.\<close>

primrec split_avps :: "nat \<Rightarrow> string \<Rightarrow> string list" where
  "split_avps 0 m = []"
| "split_avps (Suc fuel) m =
     (let n = hex_int (take 6 (drop 10 m));
          k = nat (2 * (4 * ((n + 3) div 4)))
      in if length m < 16 \<or> k = 0 then [] else take k m # split_avps fuel (drop k m))"

definition wire_splitMsgAVPs :: "string \<Rightarrow> string list" where
  "wire_splitMsgAVPs m = split_avps (length m) m"

text \<open>
  The library's \<open>initializeHops\<close> numbers the header it is given from two counters of its
  own: the first call starts them from the clock, every later call adds one to each. It is
  the function a peer uses to number the requests it originates.
\<close>

record hop_counters =
  clock :: int
  counters :: "(int \<times> int) option"

definition wire_initializeHops :: "hop_counters \<Rightarrow> HDRItem \<Rightarrow> HDRItem \<times> hop_counters" where
  "wire_initializeHops w H =
     (let (h, e) = (case counters w of
                      None \<Rightarrow> (clock w, (clock w mod 32768) * 32768)
                    | Some (h, e) \<Rightarrow> (h + 1, e + 1))
      in (H\<lparr>HDRItem.HobByHop := h, HDRItem.EndToEnd := e\<rparr>, w\<lparr>counters := Some (h, e)\<rparr>))"

definition wire_codec :: "hop_counters libDiameter" where
  "wire_codec =
     \<lparr> HDRItem_new = \<lparr>ver = 0, flags = 0, len = 0, cmd = 0, appId = 0,
                       HobByHop = 0, EndToEnd = 0, msg = []\<rparr>,
       stripHdr = wire_stripHdr,
       splitMsgAVPs = wire_splitMsgAVPs,
       decodeAVP = wire_decodeAVP,
       encodeAVP = wire_encodeAVP,
       initializeHops = wire_initializeHops,
       createRes = wire_createRes,
       dictCOMMANDname2code = (\<lambda>name. if name = ''Capabilities-Exchange'' then 257 else 0) \<rparr>"

subsection \<open>Concrete runs\<close>

text \<open>The bytes that a text of hexadecimal digits stands for.\<close>

definition unhex :: "string \<Rightarrow> bytes" where
  "unhex s = (case hex_decode s of Inl e \<Rightarrow> [] | Inr b \<Rightarrow> b)"

text \<open>What the server makes of received bytes before it dispatches: the decoded request.\<close>

definition decoded_request :: "'w libDiameter \<Rightarrow> bytes \<Rightarrow> DiameterMessage" where
  "decoded_request L request_info =
     DiameterMessage_init L (stripHdr L (HDRItem_new L) (hex_encode request_info))"

text \<open>
  A capability-exchange request of 104 bytes: command code 257, hop-by-hop identifier 17,
  end-to-end identifier 34, and the attributes Origin-Host = peerA,
  Origin-Realm = realm.test, Vendor-Id = 0, Origin-State-Id = 1, Supported-Vendor-Id = 0,
  Acct-Application-Id = 0.
\<close>

definition cer_bytes :: bytes where
  "cer_bytes = unhex
     (''0100006880000101000000000000001100000022''
      @ ''000001084000000D7065657241000000''
      @ ''00000128400000127265616C6D2E746573740000''
      @ ''0000010A4000000C00000000''
      @ ''000001164000000C00000001''
      @ ''000001094000000C00000000''
      @ ''000001034000000C00000000'')"

text \<open>The same request without its Origin-Host attribute (88 bytes).\<close>

definition cer_without_host_bytes :: bytes where
  "cer_without_host_bytes = unhex
     (''0100005880000101000000000000001100000022''
      @ ''00000128400000127265616C6D2E746573740000''
      @ ''0000010A4000000C00000000''
      @ ''000001164000000C00000001''
      @ ''000001094000000C00000000''
      @ ''000001034000000C00000000'')"

text \<open>A request of 20 bytes with the command code 9999 and no attribute, and the same
  identifiers 17 and 34.\<close>

definition unknown_bytes :: bytes where
  "unknown_bytes = unhex ''010000148000270F000000000000001100000022''"

text \<open>A request of 44 bytes with the command code 9999 and the attribute
  Supported-Vendor-Id twice, first with the value 1, then with the value 2.\<close>

definition repeated_bytes :: bytes where
  "repeated_bytes = unhex
     (''0100002C8000270F000000000000001100000022''
      @ ''000001094000000C00000001''
      @ ''000001094000000C00000002'')"

text \<open>A request of 4096 bytes, as many as the buffer holds: command code 9999 and one
  Origin-Host attribute whose value is 4068 times the letter a.\<close>

definition full_buffer_bytes :: bytes where
  "full_buffer_bytes =
     unhex (''010010008000270F000000000000001100000022'' @ ''0000010840000FEC'')
       @ replicate 4068 (CHR ''a'')"

text \<open>A connection on which nothing has been sent, with what its reads will meet; and the
  library's counters before their first use, the clock at 1000.\<close>

definition fresh_connection :: "recv_event list \<Rightarrow> recv_event \<Rightarrow> connection" where
  "fresh_connection evs ev = \<lparr>script = evs, thereafter = ev, sent = [], closed = False\<rparr>"

definition first_use :: hop_counters where
  "first_use = \<lparr>clock = 1000, counters = None\<rparr>"

section \<open>Properties\<close>

subsection \<open>Python dictionaries\<close>

lemma getitem_simps:
  "d k = None \<Longrightarrow> getitem d k = Inl (KeyError k)"
  "d k = Some v \<Longrightarrow> getitem d k = Inr v"
  by (simp_all add: getitem_def)

subsection \<open>The builders and the dispatch\<close>

lemma and_then_simps [simp]:
  "and_then (Inl e) f = Inl e"
  "and_then (Inr v) f = f v"
  by (simp_all add: and_then_def)

lemma result_codes_getitem [simp]:
  "getitem result_codes ''DIAMETER_SUCCESS'' = Inr 2001"
  "getitem result_codes ''DIAMETER_UNABLE_TO_COMPLY'' = Inr 5012"
  by (simp_all add: getitem_def result_codes_def)

lemma dispatch_cases:
  "dict_get (cmd_code_responses L) code (invalid_request L) =
     (if code = 257 then generate_capability_exchange_answer L else invalid_request L)"
  by (simp add: dict_get_def cmd_code_responses_def)

lemma invalid_request_eq:
  "invalid_request L w req =
     (Inr (createRes L (fst (initializeHops L w ((HDRItem_new L)\<lparr>cmd := command_code req\<rparr>)))
             [encodeAVP L ''Result-Code'' (PyInt 5012)]),
      snd (initializeHops L w ((HDRItem_new L)\<lparr>cmd := command_code req\<rparr>)))"
  by (simp add: invalid_request_def Let_def split: prod.split)

lemma cea_eq:
  assumes "avps req ''Origin-Host'' = Some v1" "avps req ''Origin-Realm'' = Some v2"
    "avps req ''Vendor-Id'' = Some v3" "avps req ''Origin-State-Id'' = Some v4"
    "avps req ''Supported-Vendor-Id'' = Some v5" "avps req ''Acct-Application-Id'' = Some v6"
  shows "generate_capability_exchange_answer L w req =
     (Inr (createRes L
             (fst (initializeHops L w
                ((HDRItem_new L)\<lparr>cmd := dictCOMMANDname2code L ''Capabilities-Exchange''\<rparr>)))
             [encodeAVP L ''Origin-Host'' v1, encodeAVP L ''Origin-Realm'' v2,
              encodeAVP L ''Result-Code'' (PyInt 2001), encodeAVP L ''Vendor-Id'' v3,
              encodeAVP L ''Origin-State-Id'' v4, encodeAVP L ''Supported-Vendor-Id'' v5,
              encodeAVP L ''Acct-Application-Id'' v6]),
      snd (initializeHops L w
             ((HDRItem_new L)\<lparr>cmd := dictCOMMANDname2code L ''Capabilities-Exchange''\<rparr>)))"
  using assms
  by (simp add: generate_capability_exchange_answer_def Let_def getitem_simps split: prod.split)

lemma cea_fails:
  assumes "avps req ''Origin-Host'' = None \<or> avps req ''Origin-Realm'' = None \<or>
    avps req ''Vendor-Id'' = None \<or> avps req ''Origin-State-Id'' = None \<or>
    avps req ''Supported-Vendor-Id'' = None \<or> avps req ''Acct-Application-Id'' = None"
  shows "\<exists>k. generate_capability_exchange_answer L w req =
       (Inl (KeyError k),
        snd (initializeHops L w
               ((HDRItem_new L)\<lparr>cmd := dictCOMMANDname2code L ''Capabilities-Exchange''\<rparr>))) \<and>
     avps req k = None \<and>
     k \<in> {''Origin-Host'', ''Origin-Realm'', ''Vendor-Id'', ''Origin-State-Id'',
          ''Supported-Vendor-Id'', ''Acct-Application-Id''}"
proof (cases "avps req ''Origin-Host''")
  case None
  then show ?thesis
    by (intro exI [of _ "''Origin-Host''"])
       (simp add: generate_capability_exchange_answer_def Let_def getitem_simps split: prod.split)
next
  case h: (Some v1)
  show ?thesis
  proof (cases "avps req ''Origin-Realm''")
    case None
    with h show ?thesis
      by (intro exI [of _ "''Origin-Realm''"])
         (simp add: generate_capability_exchange_answer_def Let_def getitem_simps split: prod.split)
  next
    case r: (Some v2)
    show ?thesis
    proof (cases "avps req ''Vendor-Id''")
      case None
      with h r show ?thesis
        by (intro exI [of _ "''Vendor-Id''"])
           (simp add: generate_capability_exchange_answer_def Let_def getitem_simps split: prod.split)
    next
      case v: (Some v3)
      show ?thesis
      proof (cases "avps req ''Origin-State-Id''")
        case None
        with h r v show ?thesis
          by (intro exI [of _ "''Origin-State-Id''"])
             (simp add: generate_capability_exchange_answer_def Let_def getitem_simps split: prod.split)
      next
        case s: (Some v4)
        show ?thesis
        proof (cases "avps req ''Supported-Vendor-Id''")
          case None
          with h r v s show ?thesis
            by (intro exI [of _ "''Supported-Vendor-Id''"])
               (simp add: generate_capability_exchange_answer_def Let_def getitem_simps split: prod.split)
        next
          case sv: (Some v5)
          with assms h r v s have "avps req ''Acct-Application-Id'' = None" by simp
          with h r v s sv show ?thesis
            by (intro exI [of _ "''Acct-Application-Id''"])
               (simp add: generate_capability_exchange_answer_def Let_def getitem_simps split: prod.split)
        qed
      qed
    qed
  qed
qed


subsection \<open>The attribute dictionary\<close>

lemma store_avps_map_of:
  "store_avps L xs d = d ++ map_of (rev (map (decodeAVP L) xs))"
proof (induction xs arbitrary: d)
  case Nil
  then show ?case by simp
next
  case (Cons x xs)
  obtain k v where kv: "decodeAVP L x = (k, v)" by (cases "decodeAVP L x")
  have "store_avps L (x # xs) d = store_avps L xs (d(k \<mapsto> v))"
    using kv by simp
  also have "\<dots> = d(k \<mapsto> v) ++ map_of (rev (map (decodeAVP L) xs))"
    by (rule Cons.IH)
  also have "\<dots> = (d ++ [k \<mapsto> v]) ++ map_of (rev (map (decodeAVP L) xs))"
    by simp
  also have "\<dots> = d ++ map_of (rev (map (decodeAVP L) (x # xs)))"
    using kv by (simp del: map_add_upd)
  finally show ?case .
qed

lemma avps_map_of:
  "avps (DiameterMessage_init L H) = map_of (rev (map (decodeAVP L) (splitMsgAVPs L (msg H))))"
  by (simp add: DiameterMessage_init_def store_avps_map_of)

lemma map_of_rev_last:
  assumes "k \<in> fst ` set es"
  shows "map_of (rev es) k = Some (snd (last (filter (\<lambda>e. fst e = k) es)))"
  using assms
proof (induction es rule: rev_induct)
  case Nil
  then show ?case by simp
next
  case (snoc e es)
  show ?case
  proof (cases "fst e = k")
    case True
    then show ?thesis by (cases e) simp
  next
    case False
    with snoc.prems have "k \<in> fst ` set es" by auto
    with snoc.IH False show ?thesis by (cases e) auto
  qed
qed

lemma map_of_rev_drop_earlier:
  assumes "fst e \<in> fst ` set es2"
  shows "map_of (rev (es1 @ e # es2)) = map_of (rev (es1 @ es2))"
proof
  fix k
  obtain a b where e: "e = (a, b)" by (cases e)
  from assms e have "a \<in> dom (map_of (rev es2))" by (simp add: dom_map_of_conv_image_fst)
  then obtain v where "map_of (rev es2) a = Some v" by blast
  then show "map_of (rev (es1 @ e # es2)) k = map_of (rev (es1 @ es2)) k"
    using e by (simp add: map_add_def split: option.split)
qed

lemma dom_avps:
  "dom (avps (DiameterMessage_init L H)) = fst ` set (map (decodeAVP L) (splitMsgAVPs L (msg H)))"
  by (simp add: avps_map_of dom_map_of_conv_image_fst)

subsection \<open>Receiving\<close>

lemma recv_sent_closed:
  "recv c n = (ev, c') \<Longrightarrow> sent c' = sent c \<and> closed c' = closed c \<and> thereafter c' = thereafter c"
  by (auto simp: recv_def split: list.splits recv_event.splits if_splits)

lemma recv_more_keeps:
  assumes "recv_more c data = Some y"
  shows "sent (snd y) = sent c \<and> closed (snd y) = closed c"
proof (rule recv_more.raw_induct [where P = "\<lambda>c data y. sent (snd y) = sent c \<and> closed (snd y) = closed c", OF _ assms])
  fix f c data y
  assume IH: "\<And>c data y. f c data = Some y \<Longrightarrow> sent (snd y) = sent c \<and> closed (snd y) = closed c"
    and step: "(case recv c BUFFER_SIZE of
                 (Data chunk, c') \<Rightarrow> f c' (data @ chunk)
               | (SocketError, c') \<Rightarrow> Some (data, c')
               | (Blocks, c') \<Rightarrow> None) = Some y"
  obtain ev c' where r: "recv c BUFFER_SIZE = (ev, c')" by (cases "recv c BUFFER_SIZE")
  from recv_sent_closed [OF r] have k: "sent c' = sent c" "closed c' = closed c" by simp_all
  show "sent (snd y) = sent c \<and> closed (snd y) = closed c"
  proof (cases ev)
    case (Data chunk)
    with step r have "f c' (data @ chunk) = Some y" by simp
    from IH [OF this] k show ?thesis by simp
  next
    case SocketError
    with step r k show ?thesis by auto
  next
    case Blocks
    with step r show ?thesis by simp
  qed
qed

lemma receive_keeps:
  "receive c = Some (r, c') \<Longrightarrow> sent c' = sent c \<and> closed c' = closed c"
  by (auto simp: receive_def split: prod.splits recv_event.splits if_splits
           dest!: recv_sent_closed recv_more_keeps)

lemma recv_data_chunk:
  "script c = Data x # evs \<Longrightarrow> length x \<le> n \<Longrightarrow> recv c n = (Data x, c\<lparr>script := evs\<rparr>)"
  by (simp add: recv_def)

lemma recv_error:
  "script c = SocketError # evs \<Longrightarrow> recv c n = (SocketError, c\<lparr>script := evs\<rparr>)"
  by (simp add: recv_def)

lemma recv_more_until_error:
  assumes "script c = map Data ds @ SocketError # evs" and "\<forall>x\<in>set ds. length x \<le> BUFFER_SIZE"
  shows "recv_more c data = Some (data @ concat ds, c\<lparr>script := evs\<rparr>)"
  using assms
proof (induction ds arbitrary: c data)
  case Nil
  then show ?case by (subst recv_more.simps) (simp add: recv_error)
next
  case (Cons x ds)
  from Cons.prems have r: "recv c BUFFER_SIZE = (Data x, c\<lparr>script := map Data ds @ SocketError # evs\<rparr>)"
    by (simp add: recv_data_chunk)
  have "recv_more (c\<lparr>script := map Data ds @ SocketError # evs\<rparr>) (data @ x)
          = Some ((data @ x) @ concat ds, c\<lparr>script := map Data ds @ SocketError # evs\<rparr>\<lparr>script := evs\<rparr>)"
    using Cons.prems by (intro Cons.IH) simp_all
  then show ?case
    by (subst recv_more.simps) (simp add: r)
qed

lemma recv_never_fails:
  "never_fails c \<Longrightarrow> recv c n = (ev, c') \<Longrightarrow> ev \<noteq> SocketError \<and> never_fails c'"
  by (auto simp: recv_def never_fails_def split: list.splits recv_event.splits if_splits)

lemma recv_more_never_returns:
  assumes "never_fails c"
  shows "recv_more c data = None"
proof (rule ccontr)
  assume "recv_more c data \<noteq> None"
  then obtain y where y: "recv_more c data = Some y" by blast
  have "\<not> never_fails c"
  proof (rule recv_more.raw_induct [where P = "\<lambda>c data y. \<not> never_fails c", OF _ y])
    fix f c data y
    assume IH: "\<And>c data y. f c data = Some y \<Longrightarrow> \<not> never_fails c"
      and step: "(case recv c BUFFER_SIZE of
                   (Data chunk, c') \<Rightarrow> f c' (data @ chunk)
                 | (SocketError, c') \<Rightarrow> Some (data, c')
                 | (Blocks, c') \<Rightarrow> None) = Some y"
    obtain ev c' where r: "recv c BUFFER_SIZE = (ev, c')" by (cases "recv c BUFFER_SIZE")
    show "\<not> never_fails c"
    proof
      assume nf: "never_fails c"
      from recv_never_fails [OF nf r] have ev: "ev \<noteq> SocketError" and nf': "never_fails c'" by simp_all
      show False
      proof (cases ev)
        case (Data chunk)
        with step r have "f c' (data @ chunk) = Some y" by simp
        from IH [OF this] nf' show False by simp
      next
        case SocketError
        with ev show False by simp
      next
        case Blocks
        with step r show False by simp
      qed
    qed
  qed
  with assms show False by simp
qed

subsection \<open>The codec at work\<close>

lemma wire_sets_hops_only: "sets_hops_only wire_codec"
  unfolding sets_hops_only_def
  by (auto simp: wire_codec_def wire_initializeHops_def Let_def split: option.split prod.split)

lemma unknown_decoded:
  "command_code (decoded_request wire_codec unknown_bytes) = 9999"
  "HobByHop (decoded_request wire_codec unknown_bytes) = 17"
  "EndToEnd (decoded_request wire_codec unknown_bytes) = 34"
  by code_simp+

lemma cer_decoded:
  "command_code (decoded_request wire_codec cer_bytes) = 257"
  "HobByHop (decoded_request wire_codec cer_bytes) = 17"
  "EndToEnd (decoded_request wire_codec cer_bytes) = 34"
  "length_field (decoded_request wire_codec cer_bytes) = 104"
  "avps (decoded_request wire_codec cer_bytes) ''Origin-Host'' = Some (PyStr ''peerA'')"
  "avps (decoded_request wire_codec cer_bytes) ''Origin-Realm'' = Some (PyStr ''realm.test'')"
  "avps (decoded_request wire_codec cer_bytes) ''Vendor-Id'' = Some (PyInt 0)"
  "avps (decoded_request wire_codec cer_bytes) ''Origin-State-Id'' = Some (PyInt 1)"
  "avps (decoded_request wire_codec cer_bytes) ''Supported-Vendor-Id'' = Some (PyInt 0)"
  "avps (decoded_request wire_codec cer_bytes) ''Acct-Application-Id'' = Some (PyInt 0)"
  by code_simp+

lemma cer_without_host_decoded:
  "command_code (decoded_request wire_codec cer_without_host_bytes) = 257"
  "avps (decoded_request wire_codec cer_without_host_bytes) ''Origin-Host'' = None"
  by code_simp+

lemma request_lengths:
  "length cer_bytes = 104"
  "length cer_without_host_bytes = 88"
  "length unknown_bytes = 20"
  "length repeated_bytes = 44"
  by code_simp+

lemma repeated_decoded:
  "map (decodeAVP wire_codec) (hex_avps (decoded_request wire_codec repeated_bytes)) =
     [(''Supported-Vendor-Id'', PyInt 1), (''Supported-Vendor-Id'', PyInt 2)]"
  "map (decodeAVP wire_codec) (splitMsgAVPs wire_codec (hex_msg (decoded_request wire_codec repeated_bytes))) =
     [(''Supported-Vendor-Id'', PyInt 1), (''Supported-Vendor-Id'', PyInt 2)]"
  "avps (decoded_request wire_codec repeated_bytes) ''Supported-Vendor-Id'' = Some (PyInt 2)"
  by code_simp+

lemma response_identifiers_run:
  "map_sum id (\<lambda>m. (HobByHop m, EndToEnd m))
     (fst (send_response wire_codec first_use (fresh_connection [] Blocks) cer_bytes)) = Inr (1000, 32768000)"
  "map_sum id (\<lambda>m. (HobByHop m, EndToEnd m))
     (fst (send_response wire_codec first_use (fresh_connection [] Blocks) unknown_bytes)) = Inr (1000, 32768000)"
  by code_simp+

lemma split_delivery_run:
  "receive (fresh_connection [Data (take 60 cer_bytes), Data (drop 60 cer_bytes)] Blocks)
     = Some (Received (take 60 cer_bytes), fresh_connection [Data (drop 60 cer_bytes)] Blocks)"
  by code_simp

lemma hex_encode_append: "hex_encode (a @ b) = hex_encode a @ hex_encode b"
  by (simp add: hex_encode_def)

lemma wire_stripHdr_len_prefix:
  "8 \<le> length p \<Longrightarrow> len (wire_stripHdr H (p @ r)) = len (wire_stripHdr H p)"
  by (auto simp: wire_stripHdr_def)

lemma full_buffer_length: "length full_buffer_bytes = 4096"
proof -
  have "length (unhex (''010010008000270F000000000000001100000022'' @ ''0000010840000FEC'')) = 28"
    by code_simp
  then show ?thesis by (simp add: full_buffer_bytes_def)
qed

lemma full_buffer_declared: "length_field (decoded_request wire_codec full_buffer_bytes) = 4096"
proof -
  let ?p = "hex_encode (unhex (''010010008000270F000000000000001100000022'' @ ''0000010840000FEC''))"
  have p: "8 \<le> length ?p" by code_simp
  have "len (wire_stripHdr (HDRItem_new wire_codec) ?p) = 4096" by code_simp
  with p show ?thesis
    by (simp add: decoded_request_def DiameterMessage_init_def full_buffer_bytes_def
        hex_encode_append wire_stripHdr_len_prefix wire_codec_def)
qed

lemma full_buffer_never_received: "receive (fresh_connection [Data full_buffer_bytes] Blocks) = None"
proof -
  let ?c = "fresh_connection [Data full_buffer_bytes] Blocks"
  have r: "recv ?c BUFFER_SIZE = (Data full_buffer_bytes, ?c\<lparr>script := []\<rparr>)"
    by (rule recv_data_chunk) (simp_all add: fresh_connection_def full_buffer_length BUFFER_SIZE_def)
  have "never_fails (?c\<lparr>script := []\<rparr>)" by (simp add: never_fails_def fresh_connection_def)
  then have "recv_more (?c\<lparr>script := []\<rparr>) full_buffer_bytes = None" by (rule recv_more_never_returns)
  with r show ?thesis by (simp add: receive_def full_buffer_length BUFFER_SIZE_def)
qed

lemma cea_response_header:
  assumes "generate_capability_exchange_answer L w req = (Inr response, w')"
  shows "\<exists>avp_list. response = createRes L
            (fst (initializeHops L w
               ((HDRItem_new L)\<lparr>cmd := dictCOMMANDname2code L ''Capabilities-Exchange''\<rparr>)))
            avp_list"
proof -
  have present: "\<not> (avps req ''Origin-Host'' = None \<or> avps req ''Origin-Realm'' = None \<or>
    avps req ''Vendor-Id'' = None \<or> avps req ''Origin-State-Id'' = None \<or>
    avps req ''Supported-Vendor-Id'' = None \<or> avps req ''Acct-Application-Id'' = None)"
  proof
    assume "avps req ''Origin-Host'' = None \<or> avps req ''Origin-Realm'' = None \<or>
      avps req ''Vendor-Id'' = None \<or> avps req ''Origin-State-Id'' = None \<or>
      avps req ''Supported-Vendor-Id'' = None \<or> avps req ''Acct-Application-Id'' = None"
    from cea_fails [OF this, of L w] assms show False by auto
  qed
  then obtain v1 v2 v3 v4 v5 v6 where v:
    "avps req ''Origin-Host'' = Some v1" "avps req ''Origin-Realm'' = Some v2"
    "avps req ''Vendor-Id'' = Some v3" "avps req ''Origin-State-Id'' = Some v4"
    "avps req ''Supported-Vendor-Id'' = Some v5" "avps req ''Acct-Application-Id'' = Some v6"
    by auto
  from cea_eq [OF v, of L w] assms show ?thesis by auto
qed

lemma builders_ignore_identifiers:
  "invalid_request L w (req\<lparr>HobByHop := x, EndToEnd := y\<rparr>) = invalid_request L w req"
  "generate_capability_exchange_answer L w (req\<lparr>HobByHop := x, EndToEnd := y\<rparr>) =
     generate_capability_exchange_answer L w req"
  by (simp_all add: invalid_request_def generate_capability_exchange_answer_def)

subsection \<open>The worker\<close>

lemma send_response_error:
  assumes "dict_get (cmd_code_responses L) (command_code (decoded_request L data)) (invalid_request L)
             w (decoded_request L data) = (Inl e, w')"
  shows "send_response L w c data = (Inl e, c, w')"
  using assms by (simp add: send_response_def decoded_request_def Let_def)

lemma handle_request_unfold:
  "receive c = Some (Received data, c') \<Longrightarrow> data \<noteq> [] \<Longrightarrow>
   handle_request L w c =
     (case send_response L w c' data of
        (Inl e, c'', w') \<Rightarrow> Some (Died e c'' w')
      | (Inr message_sent, c'', w') \<Rightarrow> handle_request L w' c'')"
  by (subst handle_request.simps) simp

lemma handle_request_dies:
  assumes "receive c = Some (Received data, c')" and "data \<noteq> []"
    and "send_response L w c' data = (Inl e, c'', w')"
  shows "handle_request L w c = Some (Died e c'' w')"
  by (simp add: handle_request_unfold [OF assms(1,2)] assms(3))

lemma receive_short:
  "length x < BUFFER_SIZE \<Longrightarrow>
   receive (fresh_connection (Data x # evs) ev) = Some (Received x, fresh_connection evs ev)"
  by (simp add: receive_def recv_def fresh_connection_def)

section \<open>The claims\<close>

text \<open>
  C7. The dispatch is total over the command codes. The registration table has the single
  key 257; looking a command code up in it, with the invalid-request builder as the default,
  gives the capability-exchange builder for 257 and the invalid-request builder for every
  other integer, so every decoded request has exactly one handler.
\<close>

theorem dispatch_total:
  "dom (cmd_code_responses L) = {257} \<and>
   dict_get (cmd_code_responses L) code (invalid_request L) =
     (if code \<in> dom (cmd_code_responses L)
      then generate_capability_exchange_answer L else invalid_request L)"
  by (simp add: dict_get_def cmd_code_responses_def)

theorem dispatch_total_witness:
  "dict_get (cmd_code_responses wire_codec) 9999 (invalid_request wire_codec) = invalid_request wire_codec \<and>
   dict_get (cmd_code_responses wire_codec) 257 (invalid_request wire_codec) =
     generate_capability_exchange_answer wire_codec"
  using dispatch_total [of wire_codec 9999] dispatch_total [of wire_codec 257] by simp

text \<open>
  C5. A request whose command code is not 257 is answered by the invalid-request builder:
  the response is what \<open>createRes\<close> makes of a header and exactly one attribute, the
  encoding of Result-Code with the value 5012, and the header's command code is the
  request's. The header passes through the library's \<open>initializeHops\<close>, which is taken to
  set the two identifiers and nothing else.
\<close>

theorem unknown_command_response:
  assumes "command_code req \<noteq> 257" and "sets_hops_only L"
  shows "\<exists>h w'. dict_get (cmd_code_responses L) (command_code req) (invalid_request L) w req =
            (Inr (createRes L h [encodeAVP L ''Result-Code'' (PyInt 5012)]), w') \<and>
          cmd h = command_code req"
proof -
  let ?H = "(HDRItem_new L)\<lparr>cmd := command_code req\<rparr>"
  from assms(2) obtain h e where
    "fst (initializeHops L w ?H) = ?H\<lparr>HDRItem.HobByHop := h, HDRItem.EndToEnd := e\<rparr>"
    unfolding sets_hops_only_def by blast
  then have "cmd (fst (initializeHops L w ?H)) = command_code req" by simp
  with assms(1) show ?thesis
    by (intro exI [of _ "fst (initializeHops L w ?H)"] exI [of _ "snd (initializeHops L w ?H)"])
       (simp add: dispatch_cases invalid_request_eq)
qed

theorem unknown_command_response_witness:
  "command_code (decoded_request wire_codec unknown_bytes) \<noteq> 257 \<and>
   sets_hops_only wire_codec \<and>
   (\<exists>h w'. dict_get (cmd_code_responses wire_codec)
              (command_code (decoded_request wire_codec unknown_bytes))
              (invalid_request wire_codec) first_use (decoded_request wire_codec unknown_bytes) =
            (Inr (createRes wire_codec h [encodeAVP wire_codec ''Result-Code'' (PyInt 5012)]), w') \<and>
          cmd h = 9999)"
proof -
  have a: "command_code (decoded_request wire_codec unknown_bytes) \<noteq> 257"
    by (simp add: unknown_decoded)
  from unknown_command_response [OF a wire_sets_hops_only, of first_use] a wire_sets_hops_only
  show ?thesis by (simp add: unknown_decoded)
qed

text \<open>
  C4. A request with the command code 257 that carries the six attributes Origin-Host,
  Origin-Realm, Vendor-Id, Origin-State-Id, Supported-Vendor-Id and Acct-Application-Id is
  answered with a response whose attributes include Result-Code with the value 2001 and
  each of the six with the value the request has for it.
\<close>

theorem capability_exchange_response:
  assumes "command_code req = 257"
    and "avps req ''Origin-Host'' = Some v1" and "avps req ''Origin-Realm'' = Some v2"
    and "avps req ''Vendor-Id'' = Some v3" and "avps req ''Origin-State-Id'' = Some v4"
    and "avps req ''Supported-Vendor-Id'' = Some v5"
    and "avps req ''Acct-Application-Id'' = Some v6"
  shows "\<exists>h avp_list w'.
           dict_get (cmd_code_responses L) (command_code req) (invalid_request L) w req =
             (Inr (createRes L h avp_list), w') \<and>
           encodeAVP L ''Result-Code'' (PyInt 2001) \<in> set avp_list \<and>
           encodeAVP L ''Origin-Host'' v1 \<in> set avp_list \<and>
           encodeAVP L ''Origin-Realm'' v2 \<in> set avp_list \<and>
           encodeAVP L ''Vendor-Id'' v3 \<in> set avp_list \<and>
           encodeAVP L ''Origin-State-Id'' v4 \<in> set avp_list \<and>
           encodeAVP L ''Supported-Vendor-Id'' v5 \<in> set avp_list \<and>
           encodeAVP L ''Acct-Application-Id'' v6 \<in> set avp_list"
proof -
  let ?h = "fst (initializeHops L w
              ((HDRItem_new L)\<lparr>cmd := dictCOMMANDname2code L ''Capabilities-Exchange''\<rparr>))"
  let ?w = "snd (initializeHops L w
              ((HDRItem_new L)\<lparr>cmd := dictCOMMANDname2code L ''Capabilities-Exchange''\<rparr>))"
  let ?l = "[encodeAVP L ''Origin-Host'' v1, encodeAVP L ''Origin-Realm'' v2,
             encodeAVP L ''Result-Code'' (PyInt 2001), encodeAVP L ''Vendor-Id'' v3,
             encodeAVP L ''Origin-State-Id'' v4, encodeAVP L ''Supported-Vendor-Id'' v5,
             encodeAVP L ''Acct-Application-Id'' v6]"
  have "dict_get (cmd_code_responses L) (command_code req) (invalid_request L) w req =
          (Inr (createRes L ?h ?l), ?w)"
    using assms(1) cea_eq [OF assms(2-7)] by (simp add: dispatch_cases)
  then show ?thesis
    by (intro exI [of _ ?h] exI [of _ ?l] exI [of _ ?w]) simp
qed

theorem capability_exchange_response_witness:
  "command_code (decoded_request wire_codec cer_bytes) = 257 \<and>
   (\<exists>h avp_list w'.
      dict_get (cmd_code_responses wire_codec) (command_code (decoded_request wire_codec cer_bytes))
        (invalid_request wire_codec) first_use (decoded_request wire_codec cer_bytes) =
        (Inr (createRes wire_codec h avp_list), w') \<and>
      encodeAVP wire_codec ''Result-Code'' (PyInt 2001) \<in> set avp_list \<and>
      encodeAVP wire_codec ''Origin-Host'' (PyStr ''peerA'') \<in> set avp_list \<and>
      encodeAVP wire_codec ''Origin-Realm'' (PyStr ''realm.test'') \<in> set avp_list \<and>
      encodeAVP wire_codec ''Vendor-Id'' (PyInt 0) \<in> set avp_list \<and>
      encodeAVP wire_codec ''Origin-State-Id'' (PyInt 1) \<in> set avp_list \<and>
      encodeAVP wire_codec ''Supported-Vendor-Id'' (PyInt 0) \<in> set avp_list \<and>
      encodeAVP wire_codec ''Acct-Application-Id'' (PyInt 0) \<in> set avp_list)"
  using capability_exchange_response [OF cer_decoded(1) cer_decoded(5-10), of wire_codec first_use]
    cer_decoded(1) by blast

text \<open>
  C10. Whenever the capability-exchange builder returns a response, the request has the six
  attributes and the response's attribute list has exactly seven entries in this order:
  Origin-Host, Origin-Realm, Result-Code (2001), Vendor-Id, Origin-State-Id,
  Supported-Vendor-Id, Acct-Application-Id.
\<close>

theorem capability_exchange_attribute_order:
  assumes "generate_capability_exchange_answer L w req = (Inr response, w')"
  shows "\<exists>h v1 v2 v3 v4 v5 v6.
           avps req ''Origin-Host'' = Some v1 \<and> avps req ''Origin-Realm'' = Some v2 \<and>
           avps req ''Vendor-Id'' = Some v3 \<and> avps req ''Origin-State-Id'' = Some v4 \<and>
           avps req ''Supported-Vendor-Id'' = Some v5 \<and>
           avps req ''Acct-Application-Id'' = Some v6 \<and>
           response = createRes L h
             [encodeAVP L ''Origin-Host'' v1, encodeAVP L ''Origin-Realm'' v2,
              encodeAVP L ''Result-Code'' (PyInt 2001), encodeAVP L ''Vendor-Id'' v3,
              encodeAVP L ''Origin-State-Id'' v4, encodeAVP L ''Supported-Vendor-Id'' v5,
              encodeAVP L ''Acct-Application-Id'' v6]"
proof -
  have present: "\<not> (avps req ''Origin-Host'' = None \<or> avps req ''Origin-Realm'' = None \<or>
    avps req ''Vendor-Id'' = None \<or> avps req ''Origin-State-Id'' = None \<or>
    avps req ''Supported-Vendor-Id'' = None \<or> avps req ''Acct-Application-Id'' = None)"
  proof
    assume "avps req ''Origin-Host'' = None \<or> avps req ''Origin-Realm'' = None \<or>
      avps req ''Vendor-Id'' = None \<or> avps req ''Origin-State-Id'' = None \<or>
      avps req ''Supported-Vendor-Id'' = None \<or> avps req ''Acct-Application-Id'' = None"
    from cea_fails [OF this, of L w] assms show False by auto
  qed
  then obtain v1 v2 v3 v4 v5 v6 where v:
    "avps req ''Origin-Host'' = Some v1" "avps req ''Origin-Realm'' = Some v2"
    "avps req ''Vendor-Id'' = Some v3" "avps req ''Origin-State-Id'' = Some v4"
    "avps req ''Supported-Vendor-Id'' = Some v5" "avps req ''Acct-Application-Id'' = Some v6"
    by auto
  from cea_eq [OF v, of L w] assms v show ?thesis by auto
qed

theorem capability_exchange_attribute_order_witness:
  "\<exists>response w'.
     generate_capability_exchange_answer wire_codec first_use (decoded_request wire_codec cer_bytes) =
       (Inr response, w') \<and>
     (\<exists>h v1 v2 v3 v4 v5 v6.
        avps (decoded_request wire_codec cer_bytes) ''Origin-Host'' = Some v1 \<and>
        avps (decoded_request wire_codec cer_bytes) ''Origin-Realm'' = Some v2 \<and>
        avps (decoded_request wire_codec cer_bytes) ''Vendor-Id'' = Some v3 \<and>
        avps (decoded_request wire_codec cer_bytes) ''Origin-State-Id'' = Some v4 \<and>
        avps (decoded_request wire_codec cer_bytes) ''Supported-Vendor-Id'' = Some v5 \<and>
        avps (decoded_request wire_codec cer_bytes) ''Acct-Application-Id'' = Some v6 \<and>
        response = createRes wire_codec h
          [encodeAVP wire_codec ''Origin-Host'' v1, encodeAVP wire_codec ''Origin-Realm'' v2,
           encodeAVP wire_codec ''Result-Code'' (PyInt 2001), encodeAVP wire_codec ''Vendor-Id'' v3,
           encodeAVP wire_codec ''Origin-State-Id'' v4,
           encodeAVP wire_codec ''Supported-Vendor-Id'' v5,
           encodeAVP wire_codec ''Acct-Application-Id'' v6])"
proof -
  obtain response w' where r:
    "generate_capability_exchange_answer wire_codec first_use (decoded_request wire_codec cer_bytes) =
       (Inr response, w')"
    using cea_eq [OF cer_decoded(5-10), of wire_codec first_use] by blast
  from capability_exchange_attribute_order [OF r] r show ?thesis by blast
qed

text \<open>
  C6. When the worker has received a request with the command code 257 that lacks one of the
  six attributes the capability-exchange builder reads, the builder fails with a
  \<open>KeyError\<close> for a missing one of them. Nothing catches it: \<open>send_response\<close> ends with the
  same error having sent nothing, and the worker's thread dies of it, the connection left as
  it was after the read (nothing sent, not closed).
\<close>

theorem missing_attribute_ends_worker:
  assumes "receive c = Some (Received data, c')" and "data \<noteq> []"
    and "command_code (decoded_request L data) = 257"
    and "avps (decoded_request L data) ''Origin-Host'' = None \<or>
         avps (decoded_request L data) ''Origin-Realm'' = None \<or>
         avps (decoded_request L data) ''Vendor-Id'' = None \<or>
         avps (decoded_request L data) ''Origin-State-Id'' = None \<or>
         avps (decoded_request L data) ''Supported-Vendor-Id'' = None \<or>
         avps (decoded_request L data) ''Acct-Application-Id'' = None"
  shows "\<exists>k w'.
           generate_capability_exchange_answer L w (decoded_request L data) = (Inl (KeyError k), w') \<and>
           avps (decoded_request L data) k = None \<and>
           k \<in> {''Origin-Host'', ''Origin-Realm'', ''Vendor-Id'', ''Origin-State-Id'',
                ''Supported-Vendor-Id'', ''Acct-Application-Id''} \<and>
           send_response L w c' data = (Inl (KeyError k), c', w') \<and>
           handle_request L w c = Some (Died (KeyError k) c' w') \<and>
           sent c' = sent c \<and> closed c' = closed c"
proof -
  let ?w = "snd (initializeHops L w
              ((HDRItem_new L)\<lparr>cmd := dictCOMMANDname2code L ''Capabilities-Exchange''\<rparr>))"
  from cea_fails [OF assms(4), of L w] obtain k where
    k: "generate_capability_exchange_answer L w (decoded_request L data) = (Inl (KeyError k), ?w) \<and>
      avps (decoded_request L data) k = None \<and>
      k \<in> {''Origin-Host'', ''Origin-Realm'', ''Vendor-Id'', ''Origin-State-Id'',
            ''Supported-Vendor-Id'', ''Acct-Application-Id''}" ..
  note k1 = k [THEN conjunct1]
  note k2 = k [THEN conjunct2, THEN conjunct1]
  note k3 = k [THEN conjunct2, THEN conjunct2]
  have "dict_get (cmd_code_responses L) (command_code (decoded_request L data)) (invalid_request L)
          w (decoded_request L data) = generate_capability_exchange_answer L w (decoded_request L data)"
    using assms(3) by (simp add: dispatch_cases)
  from this k1 have "dict_get (cmd_code_responses L) (command_code (decoded_request L data)) (invalid_request L)
          w (decoded_request L data) = (Inl (KeyError k), ?w)"
    by (rule trans)
  then have s: "send_response L w c' data = (Inl (KeyError k), c', ?w)"
    by (rule send_response_error)
  have h: "handle_request L w c = Some (Died (KeyError k) c' ?w)"
    by (rule handle_request_dies [OF assms(1,2) s])
  note u = receive_keeps [OF assms(1), THEN conjunct1]
  note v = receive_keeps [OF assms(1), THEN conjunct2]
  show ?thesis
    by (intro exI [of _ k] exI [of _ ?w] conjI) (rule k1 k2 k3 s h u v)+
qed

theorem missing_attribute_ends_worker_witness:
  "receive (fresh_connection [Data cer_without_host_bytes] Blocks) =
     Some (Received cer_without_host_bytes, fresh_connection [] Blocks) \<and>
   cer_without_host_bytes \<noteq> [] \<and>
   command_code (decoded_request wire_codec cer_without_host_bytes) = 257 \<and>
   avps (decoded_request wire_codec cer_without_host_bytes) ''Origin-Host'' = None \<and>
   (\<exists>k w'. handle_request wire_codec first_use (fresh_connection [Data cer_without_host_bytes] Blocks) =
              Some (Died (KeyError k) (fresh_connection [] Blocks) w') \<and>
            avps (decoded_request wire_codec cer_without_host_bytes) k = None \<and>
            sent (fresh_connection [] Blocks) = [])"
proof -
  have l: "length cer_without_host_bytes = 88" by (rule request_lengths)
  have r: "receive (fresh_connection [Data cer_without_host_bytes] Blocks) =
     Some (Received cer_without_host_bytes, fresh_connection [] Blocks)"
    by (rule receive_short) (simp add: l BUFFER_SIZE_def)
  have n: "cer_without_host_bytes \<noteq> []" using l by auto
  have m: "avps (decoded_request wire_codec cer_without_host_bytes) ''Origin-Host'' = None \<or>
         avps (decoded_request wire_codec cer_without_host_bytes) ''Origin-Realm'' = None \<or>
         avps (decoded_request wire_codec cer_without_host_bytes) ''Vendor-Id'' = None \<or>
         avps (decoded_request wire_codec cer_without_host_bytes) ''Origin-State-Id'' = None \<or>
         avps (decoded_request wire_codec cer_without_host_bytes) ''Supported-Vendor-Id'' = None \<or>
         avps (decoded_request wire_codec cer_without_host_bytes) ''Acct-Application-Id'' = None"
    by (simp add: cer_without_host_decoded)
  from missing_attribute_ends_worker [OF r n cer_without_host_decoded(1) m, of first_use]
  obtain k w' where kw:
    "generate_capability_exchange_answer wire_codec first_use
        (decoded_request wire_codec cer_without_host_bytes) = (Inl (KeyError k), w') \<and>
     avps (decoded_request wire_codec cer_without_host_bytes) k = None \<and>
     k \<in> {''Origin-Host'', ''Origin-Realm'', ''Vendor-Id'', ''Origin-State-Id'',
          ''Supported-Vendor-Id'', ''Acct-Application-Id''} \<and>
     send_response wire_codec first_use (fresh_connection [] Blocks) cer_without_host_bytes =
       (Inl (KeyError k), fresh_connection [] Blocks, w') \<and>
     handle_request wire_codec first_use (fresh_connection [Data cer_without_host_bytes] Blocks) =
       Some (Died (KeyError k) (fresh_connection [] Blocks) w') \<and>
     sent (fresh_connection [] Blocks) = sent (fresh_connection [Data cer_without_host_bytes] Blocks) \<and>
     closed (fresh_connection [] Blocks) = closed (fresh_connection [Data cer_without_host_bytes] Blocks)"
    by (elim exE) (rule that)
  note h = kw [THEN conjunct2, THEN conjunct2, THEN conjunct2, THEN conjunct2, THEN conjunct1]
  note a = kw [THEN conjunct2, THEN conjunct1]
  have e: "sent (fresh_connection [] Blocks) = []" by (simp add: fresh_connection_def)
  have "\<exists>k w'. handle_request wire_codec first_use (fresh_connection [Data cer_without_host_bytes] Blocks) =
              Some (Died (KeyError k) (fresh_connection [] Blocks) w') \<and>
            avps (decoded_request wire_codec cer_without_host_bytes) k = None \<and>
            sent (fresh_connection [] Blocks) = []"
    by (intro exI [of _ k] exI [of _ w'] conjI) (rule h a e)+
  with r n cer_without_host_decoded show ?thesis
    by (intro conjI)
qed

text \<open>
  C8. When the first read on a connection returns no bytes, the worker leaves its loop,
  closes the connection and ends; nothing has been sent on the connection.
\<close>

theorem empty_read_closes:
  assumes "recv c BUFFER_SIZE = (Data [], c')"
  shows "handle_request L w c = Some (Finished (close c') w) \<and>
         sent (close c') = sent c \<and> closed (close c')"
proof -
  have "receive c = Some (Received [], c')"
    using assms by (simp add: receive_def BUFFER_SIZE_def)
  then have "handle_request L w c = Some (Finished (close c') w)"
    by (subst handle_request.simps) simp
  with recv_sent_closed [OF assms] show ?thesis by (simp add: close_def)
qed

theorem empty_read_closes_witness:
  "recv (fresh_connection [] (Data [])) BUFFER_SIZE = (Data [], fresh_connection [] (Data [])) \<and>
   handle_request wire_codec first_use (fresh_connection [] (Data [])) =
     Some (Finished (close (fresh_connection [] (Data []))) first_use) \<and>
   sent (close (fresh_connection [] (Data []))) = [] \<and>
   closed (close (fresh_connection [] (Data [])))"
proof -
  have r: "recv (fresh_connection [] (Data [])) BUFFER_SIZE = (Data [], fresh_connection [] (Data []))"
    by (simp add: recv_def fresh_connection_def)
  from empty_read_closes [OF r, of wire_codec first_use] r show ?thesis
    by (simp add: fresh_connection_def)
qed

text \<open>
  C2. The claim is that both builders copy the request's hop-by-hop and end-to-end
  identifiers into the response. They do not: each creates a new header, sets its command
  code and passes it to the library's \<open>initializeHops\<close>, which numbers it from the library's
  own counters. The request of the first run below carries the identifiers 17 and 34, and
  so does the second; with the counters started at a clock of 1000 the responses carry 1000
  and 32768000.
\<close>

theorem response_identifiers_counterexample:
  "HobByHop (decoded_request wire_codec cer_bytes) = 17 \<and>
   EndToEnd (decoded_request wire_codec cer_bytes) = 34 \<and>
   map_sum id (\<lambda>m. (HobByHop m, EndToEnd m))
     (fst (send_response wire_codec first_use (fresh_connection [] Blocks) cer_bytes)) =
     Inr (1000, 32768000) \<and>
   HobByHop (decoded_request wire_codec unknown_bytes) = 17 \<and>
   EndToEnd (decoded_request wire_codec unknown_bytes) = 34 \<and>
   map_sum id (\<lambda>m. (HobByHop m, EndToEnd m))
     (fst (send_response wire_codec first_use (fresh_connection [] Blocks) unknown_bytes)) =
     Inr (1000, 32768000)"
  by (intro conjI) (rule cer_decoded unknown_decoded response_identifiers_run)+

text \<open>
  C2, as the code has it. For both builders the response's header is the one that
  \<open>initializeHops\<close> returns for a new header carrying only the command code, so its
  identifiers are the library's; the request's identifiers are not read, and changing them
  changes nothing in what a builder returns.
\<close>

theorem response_identifiers_from_library:
  "invalid_request L w (req\<lparr>HobByHop := x, EndToEnd := y\<rparr>) = invalid_request L w req \<and>
   generate_capability_exchange_answer L w (req\<lparr>HobByHop := x, EndToEnd := y\<rparr>) =
     generate_capability_exchange_answer L w req \<and>
   (\<exists>avp_list. invalid_request L w req =
      (Inr (createRes L
              (fst (initializeHops L w ((HDRItem_new L)\<lparr>cmd := command_code req\<rparr>))) avp_list),
       snd (initializeHops L w ((HDRItem_new L)\<lparr>cmd := command_code req\<rparr>)))) \<and>
   (generate_capability_exchange_answer L w req = (Inr response, w') \<longrightarrow>
      (\<exists>avp_list. response = createRes L
         (fst (initializeHops L w
            ((HDRItem_new L)\<lparr>cmd := dictCOMMANDname2code L ''Capabilities-Exchange''\<rparr>)))
         avp_list))"
proof (intro conjI impI)
  show "\<exists>avp_list. invalid_request L w req =
      (Inr (createRes L
              (fst (initializeHops L w ((HDRItem_new L)\<lparr>cmd := command_code req\<rparr>))) avp_list),
       snd (initializeHops L w ((HDRItem_new L)\<lparr>cmd := command_code req\<rparr>)))"
    by (rule exI [of _ "[encodeAVP L ''Result-Code'' (PyInt 5012)]"]) (rule invalid_request_eq)
qed (rule builders_ignore_identifiers cea_response_header, assumption?)+

theorem response_identifiers_from_library_witness:
  "\<exists>response w'.
     generate_capability_exchange_answer wire_codec first_use (decoded_request wire_codec cer_bytes) =
       (Inr response, w') \<and>
     (\<exists>avp_list. response = createRes wire_codec
        (fst (initializeHops wire_codec first_use
           ((HDRItem_new wire_codec)\<lparr>cmd := dictCOMMANDname2code wire_codec ''Capabilities-Exchange''\<rparr>)))
        avp_list) \<and>
     invalid_request wire_codec first_use
       ((decoded_request wire_codec cer_bytes)\<lparr>HobByHop := 99, EndToEnd := 98\<rparr>) =
       invalid_request wire_codec first_use (decoded_request wire_codec cer_bytes)"
proof -
  obtain response w' where r:
    "generate_capability_exchange_answer wire_codec first_use (decoded_request wire_codec cer_bytes) =
       (Inr response, w')"
    using cea_eq [OF cer_decoded(5-10), of wire_codec first_use] by blast
  from response_identifiers_from_library
         [where L = wire_codec and w = first_use and req = "decoded_request wire_codec cer_bytes"
            and x = 99 and y = 98 and response = response and w' = w'] r
  show ?thesis by blast
qed

text \<open>
  C1. The claim is that the worker gathers exactly as many bytes as the header's length
  field declares, however the transport cuts them into reads. It does not look at the
  length field. The capability-exchange request of 104 bytes, delivered as 60 bytes and then
  44, is handed on after the first read, 60 bytes long. A request of exactly 4096 bytes,
  delivered in one read to a worker whose peer then waits for the answer, is never handed
  on: the worker keeps reading.
\<close>

theorem framing_by_length_counterexample:
  "length cer_bytes = 104 \<and>
   length_field (decoded_request wire_codec cer_bytes) = 104 \<and>
   receive (fresh_connection [Data (take 60 cer_bytes), Data (drop 60 cer_bytes)] Blocks) =
     Some (Received (take 60 cer_bytes), fresh_connection [Data (drop 60 cer_bytes)] Blocks) \<and>
   length (take 60 cer_bytes) = 60 \<and>
   length full_buffer_bytes = 4096 \<and>
   length_field (decoded_request wire_codec full_buffer_bytes) = 4096 \<and>
   receive (fresh_connection [Data full_buffer_bytes] Blocks) = None"
  by (intro conjI)
     (rule request_lengths cer_decoded split_delivery_run full_buffer_length
        full_buffer_declared full_buffer_never_received | simp add: request_lengths)+

text \<open>
  C1, as the code has it. What the worker hands to decoding is decided by the size of the
  first read alone. A first read of any other size than \<open>BUFFER_SIZE\<close> is handed on as it
  is. A first read of exactly \<open>BUFFER_SIZE\<close> bytes is extended by every following read until
  one raises \<open>socket.error\<close>, and all of it is handed on together.
\<close>

theorem receive_by_buffer_size:
  "(recv c BUFFER_SIZE = (Data d, c') \<and> length d \<noteq> BUFFER_SIZE \<longrightarrow>
      receive c = Some (Received d, c')) \<and>
   (recv c BUFFER_SIZE = (Data d, c') \<and> length d = BUFFER_SIZE \<and>
    script c' = map Data ds @ SocketError # evs \<and> (\<forall>x\<in>set ds. length x \<le> BUFFER_SIZE) \<longrightarrow>
      receive c = Some (Received (d @ concat ds), c'\<lparr>script := evs\<rparr>))"
proof (intro conjI impI)
  assume "recv c BUFFER_SIZE = (Data d, c') \<and> length d \<noteq> BUFFER_SIZE"
  then show "receive c = Some (Received d, c')" by (simp add: receive_def)
next
  assume a: "recv c BUFFER_SIZE = (Data d, c') \<and> length d = BUFFER_SIZE \<and>
    script c' = map Data ds @ SocketError # evs \<and> (\<forall>x\<in>set ds. length x \<le> BUFFER_SIZE)"
  then have "recv_more c' d = Some (d @ concat ds, c'\<lparr>script := evs\<rparr>)"
    by (intro recv_more_until_error) simp_all
  with a show "receive c = Some (Received (d @ concat ds), c'\<lparr>script := evs\<rparr>)"
    by (simp add: receive_def)
qed

theorem receive_by_buffer_size_witness:
  "recv (fresh_connection [Data ''abc'', Data ''de''] Blocks) BUFFER_SIZE =
     (Data ''abc'', fresh_connection [Data ''de''] Blocks) \<and>
   length ''abc'' \<noteq> BUFFER_SIZE \<and>
   receive (fresh_connection [Data ''abc'', Data ''de''] Blocks) =
     Some (Received ''abc'', fresh_connection [Data ''de''] Blocks) \<and>
   recv (fresh_connection [Data full_buffer_bytes, Data ''abc'', Data ''de'', SocketError] Blocks)
       BUFFER_SIZE =
     (Data full_buffer_bytes, fresh_connection [Data ''abc'', Data ''de'', SocketError] Blocks) \<and>
   length full_buffer_bytes = BUFFER_SIZE \<and>
   receive (fresh_connection [Data full_buffer_bytes, Data ''abc'', Data ''de'', SocketError] Blocks) =
     Some (Received (full_buffer_bytes @ ''abcde''), fresh_connection [] Blocks)"
proof -
  have r1: "recv (fresh_connection [Data ''abc'', Data ''de''] Blocks) BUFFER_SIZE =
     (Data ''abc'', fresh_connection [Data ''de''] Blocks)"
    by (simp add: recv_def fresh_connection_def BUFFER_SIZE_def)
  have l1: "length ''abc'' \<noteq> BUFFER_SIZE" by (simp add: BUFFER_SIZE_def)
  have r2: "recv (fresh_connection [Data full_buffer_bytes, Data ''abc'', Data ''de'', SocketError] Blocks)
       BUFFER_SIZE =
     (Data full_buffer_bytes, fresh_connection [Data ''abc'', Data ''de'', SocketError] Blocks)"
    by (simp add: recv_def fresh_connection_def BUFFER_SIZE_def full_buffer_length)
  have l2: "length full_buffer_bytes = BUFFER_SIZE" by (simp add: BUFFER_SIZE_def full_buffer_length)
  have s2: "script (fresh_connection [Data ''abc'', Data ''de'', SocketError] Blocks) =
     map Data [''abc'', ''de''] @ SocketError # []"
    by (simp add: fresh_connection_def)
  have b2: "\<forall>x\<in>set [''abc'', ''de'']. length x \<le> BUFFER_SIZE" by (simp add: BUFFER_SIZE_def)
  note t = receive_by_buffer_size
  from t [where c = "fresh_connection [Data ''abc'', Data ''de''] Blocks" and d = "''abc''"
            and c' = "fresh_connection [Data ''de''] Blocks", THEN conjunct1] r1 l1
  have a1: "receive (fresh_connection [Data ''abc'', Data ''de''] Blocks) =
     Some (Received ''abc'', fresh_connection [Data ''de''] Blocks)" by simp
  from t [where c = "fresh_connection [Data full_buffer_bytes, Data ''abc'', Data ''de'', SocketError] Blocks"
            and d = full_buffer_bytes
            and c' = "fresh_connection [Data ''abc'', Data ''de'', SocketError] Blocks"
            and ds = "[''abc'', ''de'']" and evs = "[]", THEN conjunct2] r2 l2 s2 b2
  have a2: "receive (fresh_connection [Data full_buffer_bytes, Data ''abc'', Data ''de'', SocketError] Blocks) =
     Some (Received (full_buffer_bytes @ ''abcde''), fresh_connection [] Blocks)"
    by (simp add: fresh_connection_def)
  from r1 l1 a1 r2 l2 a2 show ?thesis by (intro conjI)
qed

end
